theory Spec2Isabelle
  imports Main "HOL-Library.Sublist"
begin

section \<open>Strings as the source uses them\<close>

text \<open>
  File names, paths and ledger cells are Python \<open>str\<close> values; they are modelled as
  \<open>string\<close> (lists of 8-bit characters). Case conversion and the regular-expression
  character classes are therefore the ASCII part of Python's: \<open>str.upper\<close> maps
  \<open>a..z\<close> to \<open>A..Z\<close> and leaves every other character alone.
\<close>

definition ascii_lowercase :: string where
  "ascii_lowercase = ''abcdefghijklmnopqrstuvwxyz''"

definition ascii_uppercase :: string where
  "ascii_uppercase = ''ABCDEFGHIJKLMNOPQRSTUVWXYZ''"

definition upper_char :: "char \<Rightarrow> char" where
  "upper_char c = (case map_of (zip ascii_lowercase ascii_uppercase) c of Some u \<Rightarrow> u | None \<Rightarrow> c)"

definition lower_char :: "char \<Rightarrow> char" where
  "lower_char c = (case map_of (zip ascii_uppercase ascii_lowercase) c of Some l \<Rightarrow> l | None \<Rightarrow> c)"

definition upper :: "string \<Rightarrow> string" where
  "upper s = map upper_char s"

definition lower :: "string \<Rightarrow> string" where
  "lower s = map lower_char s"

text \<open>\<open>s.startswith(k)\<close>, \<open>s.endswith(k)\<close> and \<open>k in s\<close> on strings.\<close>

fun startswith :: "string \<Rightarrow> string \<Rightarrow> bool" where
  "startswith s [] = True"
| "startswith [] (k # ks) = False"
| "startswith (c # cs) (k # ks) = (c = k \<and> startswith cs ks)"

definition endswith :: "string \<Rightarrow> string \<Rightarrow> bool" where
  "endswith s k = startswith (rev s) (rev k)"

fun contains :: "string \<Rightarrow> string \<Rightarrow> bool" where
  "contains [] k = (k = [])"
| "contains (c # cs) k = (startswith (c # cs) k \<or> contains cs k)"

section \<open>The world the process acts on\<close>

text \<open>
  Everything the program reads or changes is one value of type \<open>world\<close>:
  \<^item> \<open>entries\<close>: the directory tree, every existing path with its kind, in the order the
    operating system lists it;
  \<^item> \<open>denied\<close>: the faults of the operating system: opening, listing or moving a path
    \<open>p\<close> with \<open>denied w p = Some e\<close> raises \<open>e\<close>;
  \<^item> \<open>pdf_text\<close>: what \<open>extract_text_from_pdf\<close> returns for a path (PyMuPDF is outside
    the program; the function already returns upper-cased text, and the empty string
    when extraction fails);
  \<^item> the five CSV ledgers, each \<open>None\<close> while its file does not exist and otherwise the
    rows of the file, header first. A row is the list of its cells: the CSV encoding
    of \<open>csv.writer\<close> and its decoding by \<open>csv.reader\<close> are not modelled. The ledgers
    live in \<open>LOG_DIR\<close> and are kept apart from \<open>entries\<close>: no row is taken to name a
    ledger file as a path to move;
  \<^item> the three global counter dictionaries.
  A move is atomic in this model: it either happens or raises and leaves the tree as
  it was (the copy-then-delete fallback of \<open>shutil.move\<close> across drives is not modelled).
  The clock is an argument of each operation: the two renderings of
  \<open>datetime.now()\<close> that the source uses.
\<close>

type_synonym path = string

datatype kind = File | Dir

datatype os_error = PermissionError string | OtherError string

fun error_text :: "os_error \<Rightarrow> string" where
  "error_text (PermissionError msg) = msg"
| "error_text (OtherError msg) = msg"

type_synonym csv = "string list list"

record stats =
  n_moved :: nat
  n_skipped :: nat
  n_errors :: nat

record clock =
  stamp :: string
  compact_stamp :: string

record world =
  entries :: "(path \<times> kind) list"
  denied :: "path \<Rightarrow> os_error option"
  pdf_text :: "path \<Rightarrow> string"
  move_log :: "csv option"
  revert_log :: "csv option"
  revert_history_log :: "csv option"
  ooc_upload_log :: "csv option"
  loose_file_log :: "csv option"
  ooc_upload_stats :: stats
  job_move_stats :: stats
  loose_file_stats :: stats

section \<open>Paths (\<open>os.path\<close> on Windows)\<close>

text \<open>
  The configured roots are drive-letter paths, so \<open>os.path\<close> is \<open>ntpath\<close>: the
  separator is the backslash, the slash is accepted as well. UNC paths (two leading
  separators) are outside the model.
\<close>

definition bslash :: char where
  "bslash = CHR 0x5C"

definition is_sep :: "char \<Rightarrow> bool" where
  "is_sep c = (c = bslash \<or> c = CHR ''/'')"

text \<open>
  \<open>os.path.join(a, b)\<close> for a second argument that is a bare name (no drive, no leading
  separator), which is what every call of the source passes: a directory entry, a
  base name or a job number.
\<close>

definition join :: "path \<Rightarrow> string \<Rightarrow> path" where
  "join a b =
     (if a = [] \<or> is_sep (last a) \<or> (length a = 2 \<and> a ! 1 = CHR '':'') then a @ b
      else a @ [bslash] @ b)"

text \<open>\<open>ntpath.splitroot\<close> without UNC: drive, root and the rest.\<close>

definition splitroot :: "path \<Rightarrow> string \<times> string \<times> string" where
  "splitroot p =
     (if p \<noteq> [] \<and> is_sep (hd p) then ([], take 1 p, drop 1 p)
      else if 2 \<le> length p \<and> p ! 1 = CHR '':'' then
        (if 3 \<le> length p \<and> is_sep (p ! 2) then (take 2 p, take 1 (drop 2 p), drop 3 p)
         else (take 2 p, [], drop 2 p))
      else ([], [], p))"

text \<open>\<open>s.rstrip(seps)\<close>.\<close>

definition rstrip_seps :: "string \<Rightarrow> string" where
  "rstrip_seps s = rev (dropWhile is_sep (rev s))"

text \<open>
  \<open>ntpath.split\<close>: the tail is what follows the last separator of the rest, the head is
  what precedes it with trailing separators removed, behind drive and root.
\<close>

definition split_path :: "path \<Rightarrow> path \<times> string" where
  "split_path p =
     (case splitroot p of (d, r, rest) \<Rightarrow>
        let tail = rev (takeWhile (\<lambda>c. \<not> is_sep c) (rev rest));
            head = take (length rest - length tail) rest
        in (d @ r @ rstrip_seps head, tail))"

definition dirname :: "path \<Rightarrow> path" where
  "dirname p = fst (split_path p)"

definition basename :: "path \<Rightarrow> string" where
  "basename p = snd (split_path p)"

text \<open>
  \<open>s.rfind\<close> for a class of characters: the last index holding one, \<open>-1\<close> when there is
  none. The scan runs left to right and remembers the last hit.
\<close>

fun rfind_from :: "(char \<Rightarrow> bool) \<Rightarrow> string \<Rightarrow> int \<Rightarrow> int \<Rightarrow> int" where
  "rfind_from P [] i found = found"
| "rfind_from P (c # cs) i found = rfind_from P cs (i + 1) (if P c then i else found)"

definition rfind :: "(char \<Rightarrow> bool) \<Rightarrow> string \<Rightarrow> int" where
  "rfind P s = rfind_from P s 0 (-1)"

text \<open>
  \<open>os.path.splitext\<close> (\<open>genericpath._splitext\<close>): the extension starts at the last dot,
  provided that dot comes after the last separator and some character between the
  separator and the dot is not itself a dot (leading dots do not start an extension).
\<close>

definition splitext :: "path \<Rightarrow> string \<times> string" where
  "splitext p =
     (let sepIndex = rfind is_sep p;
          dotIndex = rfind (\<lambda>c. c = CHR ''.'') p
      in if dotIndex > sepIndex \<and>
            list_ex (\<lambda>c. c \<noteq> CHR ''.'')
              (take (nat (dotIndex - (sepIndex + 1))) (drop (nat (sepIndex + 1)) p))
         then (take (nat dotIndex) p, drop (nat dotIndex) p)
         else (p, []))"

section \<open>The file system\<close>

definition path_exists :: "world \<Rightarrow> path \<Rightarrow> bool" where
  "path_exists w p = (p \<in> set (map fst (entries w)))"

definition isdir :: "world \<Rightarrow> path \<Rightarrow> bool" where
  "isdir w p = ((p, Dir) \<in> set (entries w))"

text \<open>The name of \<open>p\<close> inside directory \<open>d\<close>, when \<open>p\<close> lies directly in \<open>d\<close>.\<close>

definition child_name :: "path \<Rightarrow> path \<Rightarrow> string option" where
  "child_name d p =
     (if startswith p (d @ [bslash]) then
        (let n = drop (length d + 1) p in
         if n \<noteq> [] \<and> \<not> list_ex is_sep n then Some n else None)
      else None)"

text \<open>\<open>os.listdir\<close>: raises when the directory is denied or is no directory.\<close>

definition listdir :: "world \<Rightarrow> path \<Rightarrow> os_error + string list" where
  "listdir w d =
     (case denied w d of
        Some e \<Rightarrow> Inl e
      | None \<Rightarrow>
          if \<not> isdir w d then Inl (OtherError ''The system cannot find the path specified'')
          else Inr (List.map_filter (child_name d) (map fst (entries w))))"

text \<open>The ancestors that \<open>os.makedirs\<close> creates, outermost first.\<close>

function missing_dirs :: "world \<Rightarrow> path \<Rightarrow> path list" where
  "missing_dirs w p =
     (if p = [] \<or> path_exists w p then []
      else if length (dirname p) < length p then missing_dirs w (dirname p) @ [p]
      else [p])"
  by pat_completeness auto
termination
  by (relation "measure (\<lambda>(w, p). length p)") auto

text \<open>\<open>os.makedirs(p, exist_ok=True)\<close>.\<close>

definition makedirs :: "world \<Rightarrow> path \<Rightarrow> os_error + world" where
  "makedirs w p =
     (case denied w p of
        Some e \<Rightarrow> Inl e
      | None \<Rightarrow>
          if path_exists w p \<and> \<not> isdir w p then Inl (OtherError ''Cannot create a file when that file already exists'')
          else Inr (w\<lparr>entries := entries w @ map (\<lambda>d. (d, Dir)) (missing_dirs w p)\<rparr>))"

text \<open>Where a path lands when \<open>src\<close> becomes \<open>dst\<close>: the folder and all it holds.\<close>

definition reparent :: "path \<Rightarrow> path \<Rightarrow> path \<Rightarrow> path" where
  "reparent src dst p =
     (if p = src then dst
      else if startswith p (src @ [bslash]) then dst @ drop (length src) p
      else p)"

definition rename :: "world \<Rightarrow> path \<Rightarrow> path \<Rightarrow> world" where
  "rename w src dst =
     w\<lparr>entries := map (\<lambda>(p, k). (reparent src dst p, k))
                      (filter (\<lambda>(p, k). p \<noteq> dst) (entries w))\<rparr>"

text \<open>
  \<open>shutil.move(src, dst)\<close>: raises on a denied or missing source and on a denied
  destination; a destination that is an existing directory receives the source inside
  it, unless that name is taken; otherwise the source is renamed to the destination,
  which needs the directory that is to hold it.
\<close>

definition shutil_move :: "world \<Rightarrow> path \<Rightarrow> path \<Rightarrow> os_error + world" where
  "shutil_move w src dst =
     (case denied w src of
        Some e \<Rightarrow> Inl e
      | None \<Rightarrow>
          (case denied w dst of
             Some e \<Rightarrow> Inl e
           | None \<Rightarrow>
               if \<not> path_exists w src then Inl (OtherError ''No such file or directory'')
               else if isdir w dst then
                 (let real_dst = join dst (basename src) in
                  if path_exists w real_dst then Inl (OtherError ''Destination path already exists'')
                  else Inr (rename w src real_dst))
               else if \<not> isdir w (dirname dst) then
                 Inl (OtherError ''The system cannot find the path specified'')
               else Inr (rename w src dst)))"

text \<open>Appending a row to a ledger opened with mode \<open>"a"\<close>: the file is created when absent.\<close>

definition append_row :: "csv option \<Rightarrow> string list \<Rightarrow> csv option" where
  "append_row f row = (case f of None \<Rightarrow> Some [row] | Some rows \<Rightarrow> Some (rows @ [row]))"

section \<open>Configuration\<close>


definition SOURCE_BASE :: path where
  "SOURCE_BASE = ''Y:'' @ [bslash] @ ''E SANCHIT 25-26''"

definition UPLOAD_OOC :: path where
  "UPLOAD_OOC = join SOURCE_BASE ''Upload_ooc''"

definition BILLING_BASE :: path where
  "BILLING_BASE = ''Z:'' @ [bslash] @ ''BILLING 2025-2026''"

definition LOG_DIR :: path where
  "LOG_DIR = ''Z:'' @ [bslash] @ ''BILLING 2025-2026'' @ [bslash] @ ''Automation Logs''"

definition MOVE_LOG :: path where
  "MOVE_LOG = join LOG_DIR ''job_move_log.csv''"

definition REVERT_LOG :: path where
  "REVERT_LOG = join LOG_DIR ''revert_log.csv''"

definition REVERT_HISTORY_LOG :: path where
  "REVERT_HISTORY_LOG = join LOG_DIR ''revert_history_log.csv''"

definition OOC_UPLOAD_LOG :: path where
  "OOC_UPLOAD_LOG = join LOG_DIR ''ooc_upload_log.csv''"

definition LOOSE_FILE_LOG :: path where
  "LOOSE_FILE_LOG = join LOG_DIR ''loose_file_log.csv''"

definition MONITORED_EXTENSIONS :: "string list" where
  "MONITORED_EXTENSIONS = [''.pdf'', ''.docx'', ''.xlsx'', ''.jpg'', ''.png'', ''.zip'']"

text \<open>The importer table, in the order the dictionary is written (and iterated).\<close>

definition IMPORTER_MAP :: "(string \<times> string) list" where
  "IMPORTER_MAP =
     [(''ABBOTT HEALTHCARE PRIVATE LIMITED'', ''ABBOTT HEALTHCARE ( IMPORT )''),
      (''ANANDA BALAJI FOODS PRIVATE LIMITED'', ''ANANDA BALAJI FOODS PV LTD''),
      (''APOLLO HOSPITALS ENTERPRISE LIMITED'', ''APPOLLO HOSPITAL''),
      (''AVIAT NETWORKS (INDIA) PRIVATE LIMITED'', ''AVIAT NETWORKS (INDIA) PRIVATE LIMITED''),
      (''BALAJI WAFERS PRIVATE LIMITED'', ''BALAJI WAFERS ( IMPORT )''),
      (''BESTEX MM INDIA PRIVATE LIMITED'', ''BESTEX MM INDIA PVT LTD''),
      (''BLUE STAR ENGINEERING & ELECTRONICS LIMITED'', ''BLUE STAR''),
      (''BRISTOL-MYERS SQUIBB INDIA PRIVATE LIMITED'', ''BRISTOL MYERS''),
      (''EDIFICE MEDICAL TECHNOLOGIES'', ''EDIFICE MEDICAL SYSTEM''),
      (''GATEWAY TERMINALS INDIA PRIVATE LIMITED'', ''GATEWAY TERMINALS INDIA PVT LTD''),
      (''GUJARAT PIPAVAV PORT LIMITED'', ''GUJARAT PIPAVAV''),
      (''JAY MA INTERNATIONAL'', ''JAY MA INTERNATIONAL''),
      (''KANTILAL CHHOTALAL'', ''KANTILAL CHHOTALAL''),
      (''MEDLINE HEALTHCARE INDUSTRIES PRIVATE LIMITED'', ''MEDLINE HEALTHCARE  PVT LTD ( IMPORT )''),
      (''MUSASHI AUTO PARTS INDIA PRIVATE LIMITED'', ''MUSASHI AUTO PARTS''),
      (''NILKANTH AGRO TECH'', ''NILKANTH AGRO TECH''),
      (''SAKET TEX-DYE PVT.LTD.'', ''SAKET TEX DYE PVT LTD''),
      (''SANCO BESAN MILL'', ''Sanco Besan Mill''),
      (''SIDDHAYU LIFE SCIENCES PRIVATE LIMITED'', ''SIDDHAYU LIFE SCIENCES PVT ITD''),
      (''SVAAR PROCESS SOLUTIONS PRIVATE LIMITED'', ''SVAAR PROCESS SOLUTIONS PRIVATE LIMITED''),
      (''URSCHEL INDIA TRADING PRIVATE LIMITED'', ''URSCHEL INDIA''),
      (''ADVICS INDIA PRIVATE LIMITED'', ''ADVICS INDIA ( IMPORT )''),
      (''ANSELL INDIA PROTECTIVE PRODUCTS PRIVATE LIMITED'', ''ANSELL INDIA PVT LTD ( IMPORT )''),
      (''ARJOHUNTLEIGH HEALTHCARE INDIA PRIVATE LIMITED'', ''ARJOHUNTLEIGH HEALTHCARE INDIA PVT LTD''),
      (''B.BRAUN MEDICAL (INDIA) PRIVATE LIMITED'', ''B BRAUN MEDICAL ( IMPORT )''),
      (''BMW INDIA PRIVATE LIMITED'', ''BMW INDIA PVT LTD''),
      (''ESSITY INDIA PRIVATE LIMITED'', ''ESSITY INDIA ( IMPORT )''),
      (''MAXHILL TECHNOLOGIES'', ''MAXHILL TECHNOLOGIES''),
      (''SKODA AUTO VOLKSWAGEN INDIA PRIVATE LIMITED'', ''SKODA AUTO ( IMPORT )''),
      (''TESLA INDIA MOTORS AND ENERGY PRIVATE LIMITED'', ''TESLA INDIA''),
      (''BHARTI AIRTEL LIMITED'', ''BHARTI AIRTEL''),
      (''DUCATI INDIA PRIVATE LIMITED'', ''DUCATI INDIA PVT LTD''),
      (''BHARTI HEXACOM LIMITED'', ''BHARTI HEXACOM LIMITED'')]"

section \<open>The two job-number patterns\<close>

text \<open>
  \<open>\d\<close> and \<open>\s\<close> on ASCII: the ten digits; the space, the five controls
  \<open>\t \n \v \f \r\<close> and the four separators \<open>0x1C..0x1F\<close>.
\<close>

definition is_digit :: "char \<Rightarrow> bool" where
  "is_digit c = (c \<in> set ''0123456789'')"

definition is_space :: "char \<Rightarrow> bool" where
  "is_space c =
     (c \<in> set [CHR '' '', CHR 0x09, CHR 0x0A, CHR 0x0B, CHR 0x0C, CHR 0x0D,
                CHR 0x1C, CHR 0x1D, CHR 0x1E, CHR 0x1F])"

text \<open>The class \<open>[_\s-]\<close> (written \<open>[\s_-]\<close> in the second pattern).\<close>

definition is_key_sep :: "char \<Rightarrow> bool" where
  "is_key_sep c = (c = CHR ''_'' \<or> is_space c \<or> c = CHR ''-'')"

text \<open>
  \<open>(\d{lo,hi})\<close> at the start of a string: greedy, so the longest run of digits up to
  \<open>hi\<close>, and a match only when the run has at least \<open>lo\<close>. Nothing follows the group in
  either pattern, so the greedy choice is final.
\<close>

definition digits :: "nat \<Rightarrow> nat \<Rightarrow> string \<Rightarrow> string option" where
  "digits lo hi s =
     (let run = takeWhile is_digit (take hi s) in if lo \<le> length run then Some run else None)"

text \<open>
  \<open>[_\s-]?(\d{lo,hi})\<close> at the start of a string: the optional separator is tried
  first, and given up when no digits follow it.
\<close>

definition sep_digits :: "nat \<Rightarrow> nat \<Rightarrow> string \<Rightarrow> string option" where
  "sep_digits lo hi s =
     (case (case s of [] \<Rightarrow> None | c # t \<Rightarrow> if is_key_sep c then digits lo hi t else None) of
        Some d \<Rightarrow> Some d
      | None \<Rightarrow> digits lo hi s)"

text \<open>
  \<open>ir_pattern = re.compile(r"IR[_\s-]?(\d{5})", re.IGNORECASE)\<close>: a match at the start
  of a string gives group 1; \<open>search\<close> takes the leftmost position that matches.
\<close>

definition ir_match :: "string \<Rightarrow> string option" where
  "ir_match s =
     (case s of
        c1 # c2 # t \<Rightarrow>
          if upper_char c1 = CHR ''I'' \<and> upper_char c2 = CHR ''R'' then sep_digits 5 5 t
          else None
      | _ \<Rightarrow> None)"

fun ir_search :: "string \<Rightarrow> string option" where
  "ir_search [] = None"
| "ir_search (c # cs) =
     (case ir_match (c # cs) of Some d \<Rightarrow> Some d | None \<Rightarrow> ir_search cs)"

text \<open>
  \<open>JOB_NUMBER_REGEX = re.compile(r"(IR|ER)[\s_-]?(\d{4,5})", re.IGNORECASE)\<close>: groups 1
  and 2.
\<close>

definition job_number_match :: "string \<Rightarrow> (string \<times> string) option" where
  "job_number_match s =
     (case s of
        c1 # c2 # t \<Rightarrow>
          if (upper_char c1 = CHR ''I'' \<or> upper_char c1 = CHR ''E'') \<and> upper_char c2 = CHR ''R''
          then map_option (\<lambda>d. ([c1, c2], d)) (sep_digits 4 5 t)
          else None
      | _ \<Rightarrow> None)"

fun job_number_search :: "string \<Rightarrow> (string \<times> string) option" where
  "job_number_search [] = None"
| "job_number_search (c # cs) =
     (case job_number_match (c # cs) of Some g \<Rightarrow> Some g | None \<Rightarrow> job_number_search cs)"

section \<open>Utility functions\<close>



text \<open>\<open>str(counter)\<close> for a non-negative counter: its decimal digits.\<close>

definition digit_char :: "nat \<Rightarrow> char" where
  "digit_char n = ''0123456789'' ! n"

function str_nat :: "nat \<Rightarrow> string" where
  "str_nat n = (if n < 10 then [digit_char n] else str_nat (n div 10) @ [digit_char (n mod 10)])"
  by pat_completeness auto
termination
  by (relation "measure id") auto

declare str_nat.simps [simp del]

text \<open>
  \<^verbatim>\<open>
  def unique_filename(dest_path):
      if not os.path.exists(dest_path):
          return dest_path
      base, ext = os.path.splitext(dest_path)
      counter = 1
      while True:
          new_path = f"{base}_{counter}{ext}"
          if not os.path.exists(new_path):
              return new_path
          counter += 1
  \<close>
  The loop ends because the tree is finite: each round passes a different existing
  path. The termination proof below needs that \<open>str\<close> is injective.
\<close>

definition numbered :: "string \<Rightarrow> string \<Rightarrow> nat \<Rightarrow> path" where
  "numbered base ext counter = base @ ''_'' @ str_nat counter @ ext"

definition later_variants :: "world \<Rightarrow> string \<Rightarrow> string \<Rightarrow> nat \<Rightarrow> path list" where
  "later_variants w base ext counter =
     filter (\<lambda>p. \<exists>n\<ge>counter. p = numbered base ext n) (map fst (entries w))"

lemma str_nat_nonempty: "str_nat n \<noteq> []"
  by (subst str_nat.simps) simp

lemma digit_char_inj:
  assumes "a < 10" and "b < 10" and "digit_char a = digit_char b"
  shows "a = b"
proof -
  have d: "distinct ''0123456789''" by simp
  have l: "length ''0123456789'' = 10" by simp
  from d l assms show ?thesis unfolding digit_char_def
    by (metis nth_eq_iff_index_eq)
qed

lemma str_nat_inj: "str_nat n = str_nat m \<Longrightarrow> n = m"
proof (induction n arbitrary: m rule: str_nat.induct)
  case (1 n)
  show ?case
  proof (cases "n < 10")
    case True
    then have sn: "str_nat n = [digit_char n]" by (subst str_nat.simps) simp
    show ?thesis
    proof (cases "m < 10")
      case mt: True
      then have "str_nat m = [digit_char m]" by (subst str_nat.simps) simp
      with sn "1.prems" have "digit_char n = digit_char m" by simp
      with True mt show ?thesis by (rule digit_char_inj)
    next
      case False
      then have "str_nat m = str_nat (m div 10) @ [digit_char (m mod 10)]"
        by (subst str_nat.simps) simp
      with sn "1.prems" have "str_nat (m div 10) = []" by simp
      with str_nat_nonempty show ?thesis by blast
    qed
  next
    case False
    then have sn: "str_nat n = str_nat (n div 10) @ [digit_char (n mod 10)]"
      by (subst str_nat.simps) simp
    show ?thesis
    proof (cases "m < 10")
      case True
      then have "str_nat m = [digit_char m]" by (subst str_nat.simps) simp
      with sn "1.prems" have "str_nat (n div 10) = []" by simp
      with str_nat_nonempty show ?thesis by blast
    next
      case mf: False
      then have "str_nat m = str_nat (m div 10) @ [digit_char (m mod 10)]"
        by (subst str_nat.simps) simp
      with sn "1.prems" have e1: "str_nat (n div 10) = str_nat (m div 10)"
        and e2: "digit_char (n mod 10) = digit_char (m mod 10)" by simp_all
      from "1.IH" [OF False e1] have d: "n div 10 = m div 10" .
      have "n mod 10 = m mod 10" by (rule digit_char_inj [OF _ _ e2]) simp_all
      with d show ?thesis by (metis div_mult_mod_eq)
    qed
  qed
qed

lemma numbered_inj: "numbered base ext n = numbered base ext m \<Longrightarrow> n = m"
  by (simp add: numbered_def str_nat_inj)

lemma later_variants_decrease:
  assumes "path_exists w (numbered base ext counter)"
  shows "length (later_variants w base ext (Suc counter))
           < length (later_variants w base ext counter)"
proof -
  let ?P = "\<lambda>p. \<exists>n\<ge>counter. p = numbered base ext n"
  let ?Q = "\<lambda>p. \<exists>n\<ge>Suc counter. p = numbered base ext n"
  let ?xs = "map fst (entries w)"
  have sub: "filter ?Q ?xs = filter ?Q (filter ?P ?xs)"
  proof -
    have "\<And>p. ?Q p \<Longrightarrow> ?P p" using Suc_leD by blast
    then have "\<And>p. (?P p \<and> ?Q p) = ?Q p" by blast
    then show ?thesis by (simp add: filter_filter conj_commute)
  qed
  have mem: "numbered base ext counter \<in> set (filter ?P ?xs)"
    using assms by (auto simp: path_exists_def)
  have notq: "\<not> ?Q (numbered base ext counter)"
    using numbered_inj by fastforce
  from mem notq have "length (filter ?Q (filter ?P ?xs)) < length (filter ?P ?xs)"
    by (rule length_filter_less)
  with sub show ?thesis by (simp add: later_variants_def)
qed

function unique_loop :: "world \<Rightarrow> string \<Rightarrow> string \<Rightarrow> nat \<Rightarrow> path" where
  "unique_loop w base ext counter =
     (let new_path = numbered base ext counter in
      if \<not> path_exists w new_path then new_path
      else unique_loop w base ext (counter + 1))"
  by pat_completeness auto
termination
  by (relation "measure (\<lambda>(w, base, ext, counter). length (later_variants w base ext counter))")
     (auto simp: later_variants_decrease)

declare unique_loop.simps [simp del]

definition unique_filename :: "world \<Rightarrow> path \<Rightarrow> path" where
  "unique_filename w dest_path =
     (if \<not> path_exists w dest_path then dest_path
      else (case splitext dest_path of (base, ext) \<Rightarrow> unique_loop w base ext 1))"

text \<open>
  \<^verbatim>\<open>
  def find_importer(text):
      for key in IMPORTER_MAP.keys():
          if key in text:
              return key
      return None
  \<close>
\<close>

definition find_importer :: "string \<Rightarrow> string option" where
  "find_importer text = find (\<lambda>key. contains text key) (map fst IMPORTER_MAP)"

text \<open>
  \<^verbatim>\<open>
  def extract_job_number(text):
      match = JOB_NUMBER_REGEX.search(text)
      if match:
          prefix = match.group(1).upper()
          number = match.group(2)
          return f"{prefix}{number}"
      return None
  \<close>
\<close>

definition extract_job_number :: "string \<Rightarrow> string option" where
  "extract_job_number text =
     (case job_number_search text of
        Some (g1, g2) \<Rightarrow> (let prefix = upper g1; number = g2 in Some (prefix @ number))
      | None \<Rightarrow> None)"

text \<open>
  The search loop that the ingest watcher and \<open>find_matching_job_folder\<close> both run over
  a listing: the first entry that is a directory and whose upper-cased name contains
  the upper-cased job number.
  \<^verbatim>\<open>
  for item in os.listdir(company_path):
      item_path = os.path.join(company_path, item)
      if os.path.isdir(item_path):
          if job_number.upper() in item.upper():
              return item_path
  return None
  \<close>
\<close>

fun first_folder_containing :: "world \<Rightarrow> path \<Rightarrow> string \<Rightarrow> string list \<Rightarrow> path option" where
  "first_folder_containing w parent job_number [] = None"
| "first_folder_containing w parent job_number (item # items) =
     (let item_path = join parent item in
      if isdir w item_path \<and> contains (upper item) (upper job_number) then Some item_path
      else first_folder_containing w parent job_number items)"

text \<open>\<open>find_matching_job_folder\<close>: a listing that raises is caught and gives \<open>None\<close>.\<close>

definition find_matching_job_folder :: "world \<Rightarrow> path \<Rightarrow> string \<Rightarrow> path option" where
  "find_matching_job_folder w company_path job_number =
     (case listdir w company_path of
        Inr items \<Rightarrow> first_folder_containing w company_path job_number items
      | Inl e \<Rightarrow> None)"

section \<open>Counters\<close>

definition count_moved :: "stats \<Rightarrow> stats" where
  "count_moved st = st\<lparr>n_moved := n_moved st + 1\<rparr>"

definition count_skipped :: "stats \<Rightarrow> stats" where
  "count_skipped st = st\<lparr>n_skipped := n_skipped st + 1\<rparr>"

definition count_error :: "stats \<Rightarrow> stats" where
  "count_error st = st\<lparr>n_errors := n_errors st + 1\<rparr>"

section \<open>Watcher 1: the OOC file uploader\<close>

text \<open>
  Every \<open>log_...\<close> function of the source opens its ledger for appending inside a
  \<open>try\<close> whose handler only prints: when the open is denied, nothing is written and the
  caller goes on.
\<close>

definition log_ooc_upload :: "clock \<Rightarrow> string \<Rightarrow> string \<Rightarrow> string \<Rightarrow> string \<Rightarrow> world \<Rightarrow> world" where
  "log_ooc_upload clk filename job_no dest_path status w =
     (case denied w OOC_UPLOAD_LOG of
        Some e \<Rightarrow> w
      | None \<Rightarrow>
          w\<lparr>ooc_upload_log :=
               append_row (ooc_upload_log w) [stamp clk, filename, job_no, dest_path, status]\<rparr>)"

text \<open>
  The body of the \<open>for filename in os.listdir(UPLOAD_OOC)\<close> loop, lines 313 to 365.
  \<open>Inl e\<close> is an exception that leaves the body: only the listing of \<open>SOURCE_BASE\<close> can
  raise outside the inner \<open>try\<close>.
\<close>

definition ooc_upload_file :: "clock \<Rightarrow> string \<Rightarrow> world \<Rightarrow> os_error + world" where
  "ooc_upload_file clk filename w =
     (let file_path = join UPLOAD_OOC filename in
      if isdir w file_path then Inr w
      else if \<not> endswith (lower filename) ''.pdf'' then Inr w
      else
        (case ir_search filename of
           None \<Rightarrow> Inr (ooc_upload_stats_update count_skipped w)
         | Some group1 \<Rightarrow>
             (let job_no = ''IR'' @ group1;
                  job_folder = join SOURCE_BASE job_no
              in case (if path_exists w job_folder then Inr (Some job_folder)
                       else (case listdir w SOURCE_BASE of
                               Inl e \<Rightarrow> Inl e
                             | Inr folders \<Rightarrow>
                                 Inr (first_folder_containing w SOURCE_BASE job_no folders))) of
                   Inl e \<Rightarrow> Inl e
                 | Inr None \<Rightarrow>
                     Inr (ooc_upload_stats_update count_error
                           (log_ooc_upload clk filename job_no [] ''ERROR: Folder not found'' w))
                 | Inr (Some job_folder) \<Rightarrow>
                     (let dest_path = unique_filename w (join job_folder filename) in
                      case shutil_move w file_path dest_path of
                        Inr w' \<Rightarrow>
                          Inr (ooc_upload_stats_update count_moved
                                (log_ooc_upload clk filename job_no dest_path ''MOVED'' w'))
                      | Inl e \<Rightarrow>
                          Inr (ooc_upload_stats_update count_error
                                (log_ooc_upload clk filename job_no []
                                   (''ERROR: '' @ error_text e) w))))))"

text \<open>
  One poll cycle: the body of \<open>while ooc_upload_running\<close> up to the sleep. An exception
  that leaves the loop over the listing ends the cycle and counts one error.
\<close>

fun ooc_upload_files :: "clock \<Rightarrow> string list \<Rightarrow> world \<Rightarrow> world" where
  "ooc_upload_files clk [] w = w"
| "ooc_upload_files clk (filename # rest) w =
     (case ooc_upload_file clk filename w of
        Inr w' \<Rightarrow> ooc_upload_files clk rest w'
      | Inl e \<Rightarrow> ooc_upload_stats_update count_error w)"

definition ooc_upload_cycle :: "clock \<Rightarrow> world \<Rightarrow> world" where
  "ooc_upload_cycle clk w =
     (case listdir w UPLOAD_OOC of
        Inr names \<Rightarrow> ooc_upload_files clk names w
      | Inl e \<Rightarrow> ooc_upload_stats_update count_error w)"

section \<open>Watcher 2: the job folder mover\<close>

definition log_job_move ::
  "clock \<Rightarrow> string \<Rightarrow> string \<Rightarrow> string \<Rightarrow> string \<Rightarrow> string \<Rightarrow> string \<Rightarrow> world \<Rightarrow> world" where
  "log_job_move clk job_no importer billing_folder trigger_file action comments w =
     (case denied w MOVE_LOG of
        Some e \<Rightarrow> w
      | None \<Rightarrow>
          w\<lparr>move_log :=
               append_row (move_log w)
                 [stamp clk, job_no, importer, billing_folder, trigger_file, action, comments]\<rparr>)"

definition log_revert :: "clock \<Rightarrow> string \<Rightarrow> path \<Rightarrow> path \<Rightarrow> world \<Rightarrow> world" where
  "log_revert clk job_no original_path moved_path w =
     (case denied w REVERT_LOG of
        Some e \<Rightarrow> w
      | None \<Rightarrow>
          w\<lparr>revert_log :=
               append_row (revert_log w) [job_no, original_path, moved_path, stamp clk]\<rparr>)"

text \<open>
  \<^verbatim>\<open>
  def move_folder(src, dest_parent):
      job = os.path.basename(src)
      dest = os.path.join(dest_parent, job)
      os.makedirs(dest_parent, exist_ok=True)
      if os.path.exists(dest):
          dest = dest + "_" + datetime.now().strftime("%Y%m%d%H%M%S")
      shutil.move(src, dest)
      log_revert(job, src, dest)
      return dest
  \<close>
  The result is the returned path or the exception raised, with the world as the call
  leaves it.
\<close>

definition move_folder :: "clock \<Rightarrow> path \<Rightarrow> path \<Rightarrow> world \<Rightarrow> (os_error + path) \<times> world" where
  "move_folder clk src dest_parent w =
     (let job = basename src;
          dest = join dest_parent job
      in case makedirs w dest_parent of
           Inl e \<Rightarrow> (Inl e, w)
         | Inr w1 \<Rightarrow>
             (let dest = (if path_exists w1 dest then dest @ ''_'' @ compact_stamp clk else dest) in
              case shutil_move w1 src dest of
                Inl e \<Rightarrow> (Inl e, w1)
              | Inr w2 \<Rightarrow> (Inr dest, log_revert clk job src dest w2)))"

text \<open>
  The body of the \<open>for trigger_path in trigger_files\<close> loop, lines 553 to 625. Nothing in
  it raises outside the inner \<open>try\<close> around \<open>move_folder\<close>, so the outer handler
  (``Processing error'') has no branch here.
\<close>

definition job_move_trigger :: "clock \<Rightarrow> path \<Rightarrow> world \<Rightarrow> world" where
  "job_move_trigger clk trigger_path w =
     (let job_path = dirname trigger_path;
          job = basename job_path;
          trigger = basename trigger_path
      in if lower job = ''upload_ooc'' then w
         else if \<not> path_exists w job_path then w
         else
           (let text = pdf_text w trigger_path in
            if text = [] then
              job_move_stats_update count_skipped
                (log_job_move clk job [] [] trigger ''SKIPPED''
                   ''Could not extract text from PDF'' w)
            else
              (case find_importer text of
                 None \<Rightarrow>
                   job_move_stats_update count_skipped
                     (log_job_move clk job [] [] trigger ''SKIPPED''
                        ''No matching importer found in PDF'' w)
               | Some importer \<Rightarrow>
                   if importer = [] then
                     job_move_stats_update count_skipped
                       (log_job_move clk job [] [] trigger ''SKIPPED''
                          ''No matching importer found in PDF'' w)
                   else
                     (case map_of IMPORTER_MAP importer of
                        None \<Rightarrow>
                          job_move_stats_update count_skipped
                            (log_job_move clk job importer [] trigger ''SKIPPED''
                               ''No billing folder mapping found'' w)
                      | Some billing_folder \<Rightarrow>
                          if billing_folder = [] then
                            job_move_stats_update count_skipped
                              (log_job_move clk job importer [] trigger ''SKIPPED''
                                 ''No billing folder mapping found'' w)
                          else
                            (let dest_parent = join BILLING_BASE billing_folder in
                             case move_folder clk job_path dest_parent w of
                               (Inr final_path, w') \<Rightarrow>
                                 job_move_stats_update count_moved
                                   (log_job_move clk job importer billing_folder trigger
                                      ''MOVED'' (''Moved to '' @ final_path) w')
                             | (Inl (PermissionError msg), w') \<Rightarrow>
                                 job_move_stats_update count_error
                                   (log_job_move clk job importer billing_folder trigger
                                      ''ERROR'' (''Permission denied: '' @ msg) w')
                             | (Inl (OtherError msg), w') \<Rightarrow>
                                 job_move_stats_update count_error
                                   (log_job_move clk job importer billing_folder trigger
                                      ''ERROR'' (''Move failed: '' @ msg) w'))))))"

text \<open>
  One poll cycle over the list that \<open>glob.glob\<close> returned for the two trigger patterns;
  the globbing itself is outside the model, so the list is an argument.
\<close>

fun job_move_triggers :: "clock \<Rightarrow> path list \<Rightarrow> world \<Rightarrow> world" where
  "job_move_triggers clk [] w = w"
| "job_move_triggers clk (trigger_path # rest) w =
     job_move_triggers clk rest (job_move_trigger clk trigger_path w)"

section \<open>The undo manager\<close>

text \<open>
  \<^verbatim>\<open>
  def log_revert_history(job_no, reverted_from, reverted_to, status):
      try:
          if not os.path.exists(REVERT_HISTORY_LOG):
              with open(REVERT_HISTORY_LOG, "w", ...) as f:
                  csv.writer(f).writerow(["Timestamp", "Job", "Reverted From",
                                          "Reverted To", "Status"])
          with open(REVERT_HISTORY_LOG, "a", ...) as f:
              csv.writer(f).writerow([now, job_no, reverted_from, reverted_to, status])
      except Exception as e:
          print(...)
  \<close>
\<close>

definition history_header :: "string list" where
  "history_header = [''Timestamp'', ''Job'', ''Reverted From'', ''Reverted To'', ''Status'']"

definition log_revert_history :: "clock \<Rightarrow> string \<Rightarrow> string \<Rightarrow> string \<Rightarrow> string \<Rightarrow> world \<Rightarrow> world" where
  "log_revert_history clk job_no reverted_from reverted_to status w =
     (case denied w REVERT_HISTORY_LOG of
        Some e \<Rightarrow> w
      | None \<Rightarrow>
          (let created = (if revert_history_log w = None then Some [history_header]
                          else revert_history_log w)
           in w\<lparr>revert_history_log :=
                   append_row created [stamp clk, job_no, reverted_from, reverted_to, status]\<rparr>))"

text \<open>The two handlers at the end of \<open>revert_job\<close>, lines 506 to 513.\<close>

fun revert_failed :: "clock \<Rightarrow> string \<Rightarrow> os_error \<Rightarrow> world \<Rightarrow> string \<times> world" where
  "revert_failed clk job_no (PermissionError msg) w =
     (''Permission denied: '' @ msg,
      log_revert_history clk job_no ''Unknown'' ''Unknown''
        (''FAILED: Permission denied - '' @ msg) w)"
| "revert_failed clk job_no (OtherError msg) w =
     (''Error reverting: '' @ msg,
      log_revert_history clk job_no ''Unknown'' ''Unknown'' (''FAILED: '' @ msg) w)"

text \<open>
  The filter of line 458:
  \<^verbatim>\<open>matches = [r for r in rows if r and len(r) >= 3 and r[0] == job_no]\<close>
\<close>

definition matches_of :: "csv \<Rightarrow> string \<Rightarrow> csv" where
  "matches_of rows job_no = filter (\<lambda>r. r \<noteq> [] \<and> length r \<ge> 3 \<and> r ! 0 = job_no) rows"

text \<open>
  \<open>revert_job\<close> from the selected ledger row on, lines 465 to 513: \<open>last_entry\<close> is the row
  \<open>last = matches[-1]\<close>. An exception raised by the move reaches the handlers.
\<close>

definition revert_entry :: "clock \<Rightarrow> string \<Rightarrow> string list \<Rightarrow> world \<Rightarrow> string \<times> world" where
  "revert_entry clk job_no last_entry w =
     (let original = last_entry ! 1;
          moved = last_entry ! 2
      in if \<not> path_exists w moved then
           (''Folder no longer exists at: '' @ moved,
            log_revert_history clk job_no moved original
              ''FAILED: Folder not at moved location'' w)
         else
           (let original_parent = dirname original in
            if \<not> path_exists w original_parent then
              (''Original directory doesn't exist: '' @ original_parent,
               log_revert_history clk job_no moved original
                 ''FAILED: Original directory missing'' w)
            else
              (let final_destination =
                     (if path_exists w original then original @ ''_'' @ compact_stamp clk
                      else original)
               in case shutil_move w moved final_destination of
                    Inr w' \<Rightarrow>
                      (''Reverted successfully to '' @ final_destination,
                       log_revert_history clk job_no moved final_destination ''SUCCESS'' w')
                  | Inl e \<Rightarrow> revert_failed clk job_no e w)))"

text \<open>
  \<open>revert_job\<close>, lines 439 to 464: reading the ledger and selecting the row. The result
  is the returned message and the world after the call. Opening the ledger can raise,
  which reaches the handlers as well.
\<close>

definition revert_job :: "clock \<Rightarrow> string \<Rightarrow> world \<Rightarrow> string \<times> world" where
  "revert_job clk job_no w =
     (case revert_log w of
        None \<Rightarrow> (''Revert log file not found.'', w)
      | Some all_rows \<Rightarrow>
          (case denied w REVERT_LOG of
             Some e \<Rightarrow> revert_failed clk job_no e w
           | None \<Rightarrow>
               if length all_rows = 0 then (''Revert log is empty.'', w)
               else
                 (let rows = drop 1 all_rows;
                      matches = matches_of rows job_no
                  in if matches = [] then (''No revert entry found for '' @ job_no @ ''.'', w)
                     else revert_entry clk job_no (last matches) w)))"

section \<open>Watcher 3: the loose file organizer\<close>

definition log_loose_file ::
  "clock \<Rightarrow> string \<Rightarrow> string \<Rightarrow> string \<Rightarrow> string \<Rightarrow> string \<Rightarrow> world \<Rightarrow> world" where
  "log_loose_file clk company filename source dest status w =
     (case denied w LOOSE_FILE_LOG of
        Some e \<Rightarrow> w
      | None \<Rightarrow>
          w\<lparr>loose_file_log :=
               append_row (loose_file_log w) [stamp clk, company, filename, source, dest, status]\<rparr>)"

definition skip_folders :: "string list" where
  "skip_folders =
     [''BILL RECEVING COPY'', ''BHARTI AIRTEL  AIFTA'', ''Automation Logs'', ''AUTO_SCRIPT'',
      ''File_Organization_Logs'']"

text \<open>The body of the \<open>for item in os.listdir(company_path)\<close> loop, lines 690 to 725.\<close>

definition loose_file_item :: "clock \<Rightarrow> string \<Rightarrow> path \<Rightarrow> string \<Rightarrow> world \<Rightarrow> world" where
  "loose_file_item clk company_folder company_path item w =
     (let item_path = join company_path item in
      if isdir w item_path then w
      else
        (let ext = snd (splitext item) in
         if lower ext \<notin> set MONITORED_EXTENSIONS then w
         else
           (case extract_job_number item of
              None \<Rightarrow> w
            | Some job_number \<Rightarrow>
                (case find_matching_job_folder w company_path job_number of
                   None \<Rightarrow> w
                 | Some job_folder_path \<Rightarrow>
                     (let dest_path = unique_filename w (join job_folder_path item) in
                      case shutil_move w item_path dest_path of
                        Inr w' \<Rightarrow>
                          loose_file_stats_update count_moved
                            (log_loose_file clk company_folder item item_path dest_path
                               ''MOVED'' w')
                      | Inl e \<Rightarrow>
                          loose_file_stats_update count_error
                            (log_loose_file clk company_folder item item_path []
                               (''ERROR: '' @ error_text e) w))))))"

fun loose_file_items :: "clock \<Rightarrow> string \<Rightarrow> path \<Rightarrow> string list \<Rightarrow> world \<Rightarrow> world" where
  "loose_file_items clk company_folder company_path [] w = w"
| "loose_file_items clk company_folder company_path (item # rest) w =
     loose_file_items clk company_folder company_path rest
       (loose_file_item clk company_folder company_path item w)"

text \<open>
  The body of the \<open>for company_folder in os.listdir(BILLING_BASE)\<close> loop, lines 671 to
  725: \<open>Inl e\<close> when listing the company folder raises, which leaves the loop.
\<close>

definition loose_file_company :: "clock \<Rightarrow> string \<Rightarrow> world \<Rightarrow> os_error + world" where
  "loose_file_company clk company_folder w =
     (let company_path = join BILLING_BASE company_folder in
      if \<not> isdir w company_path then Inr w
      else if company_folder \<in> set skip_folders then Inr w
      else
        (case listdir w company_path of
           Inl e \<Rightarrow> Inl e
         | Inr items \<Rightarrow> Inr (loose_file_items clk company_folder company_path items w)))"

fun loose_file_companies :: "clock \<Rightarrow> string list \<Rightarrow> world \<Rightarrow> world" where
  "loose_file_companies clk [] w = w"
| "loose_file_companies clk (company_folder # rest) w =
     (case loose_file_company clk company_folder w of
        Inr w' \<Rightarrow> loose_file_companies clk rest w'
      | Inl e \<Rightarrow> loose_file_stats_update count_error w)"

definition loose_file_cycle :: "clock \<Rightarrow> world \<Rightarrow> world" where
  "loose_file_cycle clk w =
     (case listdir w BILLING_BASE of
        Inr names \<Rightarrow> loose_file_companies clk names w
      | Inl e \<Rightarrow> loose_file_stats_update count_error w)"

section \<open>Auxiliary definitions for the statements\<close>

text \<open>
  The \<open>n\<close>-th counter variant of a path: \<open>_n\<close> inserted before the extension that
  \<open>splitext\<close> finds.
\<close>

definition counter_variant :: "path \<Rightarrow> nat \<Rightarrow> path" where
  "counter_variant dest_path n =
     (case splitext dest_path of (base, ext) \<Rightarrow> numbered base ext n)"

text \<open>A world with the given tree, no faults, no ledger files and all counters zero.\<close>

definition bare_world :: "(path \<times> kind) list \<Rightarrow> world" where
  "bare_world es =
     \<lparr>entries = es, denied = (\<lambda>p. None), pdf_text = (\<lambda>p. []),
      move_log = None, revert_log = None, revert_history_log = None,
      ooc_upload_log = None, loose_file_log = None,
      ooc_upload_stats = \<lparr>n_moved = 0, n_skipped = 0, n_errors = 0\<rparr>,
      job_move_stats = \<lparr>n_moved = 0, n_skipped = 0, n_errors = 0\<rparr>,
      loose_file_stats = \<lparr>n_moved = 0, n_skipped = 0, n_errors = 0\<rparr>\<rparr>"

text \<open>The rows of the revert-history ledger, with the header it is created with.\<close>

definition history_rows :: "world \<Rightarrow> csv" where
  "history_rows w = (case revert_history_log w of None \<Rightarrow> [history_header] | Some rows \<Rightarrow> rows)"

text \<open>
  What one revert may do to the revert-history ledger: nothing, or one row appended
  (behind the header when the file had to be created).
\<close>

definition appended_at_most_one :: "csv option \<Rightarrow> csv option \<Rightarrow> bool" where
  "appended_at_most_one before after =
     (after = before
      \<or> (\<exists>row. after = Some ((case before of None \<Rightarrow> [history_header] | Some rows \<Rightarrow> rows) @ [row])))"

text \<open>Concrete inputs for the examples: a clock reading, paths, ledgers and worlds.\<close>

definition clock0 :: clock where
  "clock0 = \<lparr>stamp = ''2026-01-15 10:30:00'', compact_stamp = ''20260115103000''\<rparr>"

text \<open>A Windows path written as its components.\<close>

fun win :: "string list \<Rightarrow> path" where
  "win [] = []"
| "win [c] = c"
| "win (c # cs) = c @ [bslash] @ win cs"

definition revert_header :: "string list" where
  "revert_header = [''Job No'', ''Original Path'', ''Moved Path'', ''Timestamp'']"

definition promoted_world :: world where
  "promoted_world =
     (bare_world
        [(win [''Y:'', ''W''], Dir),
         (win [''Z:'', ''B'', ''IR00451''], Dir),
         (win [''Z:'', ''B'', ''IR00451'', ''a.pdf''], File),
         (win [''Z:'', ''OLD'', ''IR00451''], Dir)])
       \<lparr>revert_log := Some
          [revert_header,
           [''IR00451'', win [''Y:'', ''W'', ''IR00451''], win [''Z:'', ''OLD'', ''IR00451''],
            ''2026-02-01 09:00:00''],
           [''IR00451'', win [''Y:'', ''W'', ''IR00451''], win [''Z:'', ''B'', ''IR00451''],
            ''2026-01-01 09:00:00''],
           [''IR00999'', win [''Y:'', ''W'', ''IR00999''], win [''Z:'', ''B'', ''IR00999''],
            ''2026-03-01 09:00:00'']]\<rparr>"

definition never_promoted_world :: world where
  "never_promoted_world =
     (bare_world [(win [''Y:'', ''W''], Dir), (win [''Y:'', ''W'', ''IR00451''], Dir)])
       \<lparr>revert_log := Some [revert_header], revert_history_log := Some [history_header]\<rparr>"

definition reverted_world :: world where
  "reverted_world =
     (bare_world [(win [''Y:'', ''W''], Dir), (win [''Y:'', ''W'', ''IR00451''], Dir)])
       \<lparr>revert_log := Some
          [revert_header,
           [''IR00451'', win [''Y:'', ''W'', ''IR00451''], win [''Z:'', ''B'', ''IR00451''],
            ''2026-01-01 09:00:00'']],
        revert_history_log := Some [history_header]\<rparr>"

text \<open>The test of line 320: \<open>filename.lower().endswith(".pdf")\<close>.\<close>

definition is_pdf_name :: "string \<Rightarrow> bool" where
  "is_pdf_name filename = endswith (lower filename) ''.pdf''"

definition ooc_header :: "string list" where
  "ooc_header = [''Timestamp'', ''Filename'', ''Job No'', ''Destination Path'', ''Status'']"

definition inbox_world :: world where
  "inbox_world =
     (bare_world
        [(SOURCE_BASE, Dir), (UPLOAD_OOC, Dir),
         (join SOURCE_BASE ''IR00451'', Dir),
         (join UPLOAD_OOC ''Invoice_IR_00451.docx'', File),
         (join UPLOAD_OOC ''Invoice_IR_00451.pdf'', File),
         (join UPLOAD_OOC ''notes.pdf'', File)])
       \<lparr>ooc_upload_log := Some [ooc_header]\<rparr>"

definition loose_header :: "string list" where
  "loose_header = [''Timestamp'', ''Company Folder'', ''Filename'', ''Source Path'',
                   ''Destination Path'', ''Status'']"

definition company_world :: world where
  "company_world =
     (bare_world
        [(BILLING_BASE, Dir),
         (join BILLING_BASE ''BMW INDIA PVT LTD'', Dir),
         (join (join BILLING_BASE ''BMW INDIA PVT LTD'') ''ir00999 - BMW'', Dir),
         (join (join BILLING_BASE ''BMW INDIA PVT LTD'') ''Packing_List_IR00451.docx'', File),
         (join (join BILLING_BASE ''BMW INDIA PVT LTD'') ''notes.pdf'', File),
         (join (join BILLING_BASE ''BMW INDIA PVT LTD'') ''Invoice_ir-00999.PDF'', File)])
       \<lparr>loose_file_log := Some [loose_header]\<rparr>"






section \<open>Facts about strings\<close>

lemma startswith_iff_prefix: "startswith s k \<longleftrightarrow> prefix k s"
  by (induction s k rule: startswith.induct) auto



lemma contains_iff_sublist: "contains s k \<longleftrightarrow> sublist k s"
  by (induction s) (auto simp: startswith_iff_prefix sublist_Cons_right)

section \<open>Trigger documents\<close>


section \<open>Unique destination paths\<close>

lemma unique_loop_free: "\<not> path_exists w (unique_loop w base ext counter)"
proof (induction w base ext counter rule: unique_loop.induct)
  case (1 w base ext counter)
  show ?case
  proof (cases "path_exists w (numbered base ext counter)")
    case True
    with 1 show ?thesis by (subst unique_loop.simps) (simp add: Let_def)
  next
    case False
    then show ?thesis by (subst unique_loop.simps) (simp add: Let_def)
  qed
qed

lemma unique_loop_first_free:
  assumes "counter \<le> N"
    and "\<forall>i. counter \<le> i \<and> i < N \<longrightarrow> path_exists w (numbered base ext i)"
    and "\<not> path_exists w (numbered base ext N)"
  shows "unique_loop w base ext counter = numbered base ext N"
  using assms
proof (induction "N - counter" arbitrary: counter)
  case 0
  then have "counter = N" by simp
  with 0 show ?case by (subst unique_loop.simps) (simp add: Let_def)
next
  case (Suc d)
  then have lt: "counter < N" by simp
  with Suc.prems have ex: "path_exists w (numbered base ext counter)" by simp
  have "unique_loop w base ext (counter + 1) = numbered base ext N"
    using Suc.hyps Suc.prems lt by (intro Suc.hyps(1)) auto
  with ex show ?case by (subst unique_loop.simps) (simp add: Let_def)
qed

text \<open>
  C8. \<open>unique_filename\<close> returns its argument when nothing exists at that path. When the
  path and its counter variants \<open>_1\<close> to \<open>_(N-1)\<close> all exist and the variant \<open>_N\<close> does
  not (\<open>N \<ge> 1\<close>), it returns the variant \<open>_N\<close>. Whatever it returns, nothing exists at
  the returned path. The function is total: the loop always ends.
\<close>

theorem unique_filename_first_free:
  "(\<not> path_exists w dest_path \<longrightarrow> unique_filename w dest_path = dest_path)
   \<and> (1 \<le> N \<and> path_exists w dest_path
        \<and> (\<forall>i. 1 \<le> i \<and> i < N \<longrightarrow> path_exists w (counter_variant dest_path i))
        \<and> \<not> path_exists w (counter_variant dest_path N)
      \<longrightarrow> unique_filename w dest_path = counter_variant dest_path N)
   \<and> \<not> path_exists w (unique_filename w dest_path)"
proof (intro conjI impI)
  assume "\<not> path_exists w dest_path"
  then show "unique_filename w dest_path = dest_path" by (simp add: unique_filename_def)
next
  assume a: "1 \<le> N \<and> path_exists w dest_path
        \<and> (\<forall>i. 1 \<le> i \<and> i < N \<longrightarrow> path_exists w (counter_variant dest_path i))
        \<and> \<not> path_exists w (counter_variant dest_path N)"
  obtain base ext where se: "splitext dest_path = (base, ext)" by (cases "splitext dest_path")
  from a se have "unique_loop w base ext 1 = numbered base ext N"
    by (intro unique_loop_first_free) (auto simp: counter_variant_def)
  with a se show "unique_filename w dest_path = counter_variant dest_path N"
    by (simp add: unique_filename_def counter_variant_def)
next
  show "\<not> path_exists w (unique_filename w dest_path)"
    by (cases "splitext dest_path") (simp add: unique_filename_def unique_loop_free)
qed

theorem unique_filename_first_free_witness:
  "path_exists (bare_world [(''J'' @ [bslash] @ ''a.pdf'', File), (''J'' @ [bslash] @ ''a_1.pdf'', File)])
     (''J'' @ [bslash] @ ''a.pdf'')
   \<and> unique_filename
       (bare_world [(''J'' @ [bslash] @ ''a.pdf'', File), (''J'' @ [bslash] @ ''a_1.pdf'', File)])
       (''J'' @ [bslash] @ ''a.pdf'') = ''J'' @ [bslash] @ ''a_2.pdf''
   \<and> unique_filename
       (bare_world [(''J'' @ [bslash] @ ''a.pdf'', File), (''J'' @ [bslash] @ ''a_1.pdf'', File)])
       (''J'' @ [bslash] @ ''b.pdf'') = ''J'' @ [bslash] @ ''b.pdf''"
proof -
  let ?w = "bare_world [(''J'' @ [bslash] @ ''a.pdf'', File), (''J'' @ [bslash] @ ''a_1.pdf'', File)]"
  let ?d = "''J'' @ [bslash] @ ''a.pdf''"
  have e0: "path_exists ?w ?d" by code_simp
  have e1': "path_exists ?w (counter_variant ?d 1)" by code_simp
  have e1: "\<forall>i. 1 \<le> i \<and> i < 2 \<longrightarrow> path_exists ?w (counter_variant ?d i)"
  proof (intro allI impI)
    fix i :: nat assume "1 \<le> i \<and> i < 2"
    then have "i = 1" by arith
    with e1' show "path_exists ?w (counter_variant ?d i)" by simp
  qed
  have e2: "\<not> path_exists ?w (counter_variant ?d 2)" by code_simp
  have r: "unique_filename ?w ?d = counter_variant ?d 2"
    using unique_filename_first_free [of ?w ?d 2] e0 e1 e2 by simp
  have nb: "\<not> path_exists ?w (''J'' @ [bslash] @ ''b.pdf'')" by code_simp
  have r2: "unique_filename ?w (''J'' @ [bslash] @ ''b.pdf'') = ''J'' @ [bslash] @ ''b.pdf''"
    using unique_filename_first_free [of ?w "''J'' @ [bslash] @ ''b.pdf''" 1] nb by blast
  have c2: "counter_variant ?d 2 = ''J'' @ [bslash] @ ''a_2.pdf''" by code_simp
  from e0 r r2 c2 show ?thesis by simp
qed

section \<open>The undo manager: which row is reverted, and what a revert leaves alone\<close>

lemma not_exists_not_isdir: "\<not> path_exists w p \<Longrightarrow> \<not> isdir w p"
  by (force simp: path_exists_def isdir_def)

lemma isdir_exists: "isdir w p \<Longrightarrow> path_exists w p"
  by (force simp: path_exists_def isdir_def)

lemma matches_of_append: "matches_of (xs @ ys) j = matches_of xs j @ matches_of ys j"
  by (simp add: matches_of_def)

lemma matches_of_none:
  "(\<forall>r. r \<in> set rows \<longrightarrow> \<not> (3 \<le> length r \<and> r ! 0 = j)) \<Longrightarrow> matches_of rows j = []"
  by (auto simp: matches_of_def filter_empty_conv)

lemma matches_of_last:
  assumes "3 \<le> length row" and "row ! 0 = job_no"
    and "\<forall>r. r \<in> set after \<longrightarrow> \<not> (3 \<le> length r \<and> r ! 0 = job_no)"
  shows "matches_of (before @ [row] @ after) job_no \<noteq> []"
    and "last (matches_of (before @ [row] @ after) job_no) = row"
proof -
  have r: "matches_of [row] job_no = [row]" using assms(1,2) by (auto simp: matches_of_def)
  have a: "matches_of after job_no = []" using assms(3) by (rule matches_of_none)
  have e: "matches_of (before @ [row] @ after) job_no = matches_of before job_no @ [row]"
    by (simp only: matches_of_append r a append_Nil2)
  show "matches_of (before @ [row] @ after) job_no \<noteq> []"
    unfolding e by simp
  show "last (matches_of (before @ [row] @ after) job_no) = row"
    unfolding e by simp
qed

lemma log_revert_history_frame:
  "entries (log_revert_history clk j a b st w) = entries w"
  "revert_log (log_revert_history clk j a b st w) = revert_log w"
  "move_log (log_revert_history clk j a b st w) = move_log w"
  "ooc_upload_log (log_revert_history clk j a b st w) = ooc_upload_log w"
  "loose_file_log (log_revert_history clk j a b st w) = loose_file_log w"
  by (simp_all add: log_revert_history_def Let_def split: option.splits)

lemma log_revert_history_effect:
  "revert_history_log (log_revert_history clk j a b st w) =
     (if denied w REVERT_HISTORY_LOG = None then Some (history_rows w @ [[stamp clk, j, a, b, st]])
      else revert_history_log w)"
  by (auto simp: log_revert_history_def history_rows_def append_row_def Let_def split: option.splits)

lemma rename_frame:
  "revert_log (rename w a b) = revert_log w"
  "move_log (rename w a b) = move_log w"
  "revert_history_log (rename w a b) = revert_history_log w"
  "ooc_upload_log (rename w a b) = ooc_upload_log w"
  "loose_file_log (rename w a b) = loose_file_log w"
  "denied (rename w a b) = denied w"
  "ooc_upload_stats (rename w a b) = ooc_upload_stats w"
  "job_move_stats (rename w a b) = job_move_stats w"
  "loose_file_stats (rename w a b) = loose_file_stats w"
  by (simp_all add: rename_def)

lemma shutil_move_cases:
  assumes "shutil_move w a b = Inr w'"
  shows "w' = rename w a b \<or> w' = rename w a (join b (basename a))"
  using assms by (auto simp: shutil_move_def Let_def split: option.splits if_splits)

lemma shutil_move_frame:
  assumes "shutil_move w a b = Inr w'"
  shows "revert_log w' = revert_log w" "move_log w' = move_log w"
    "revert_history_log w' = revert_history_log w" "ooc_upload_log w' = ooc_upload_log w"
    "loose_file_log w' = loose_file_log w" "denied w' = denied w"
    "ooc_upload_stats w' = ooc_upload_stats w" "job_move_stats w' = job_move_stats w"
    "loose_file_stats w' = loose_file_stats w"
  using shutil_move_cases [OF assms] by (auto simp: rename_frame)

lemma shutil_move_free:
  assumes "denied w a = None" "denied w b = None" "path_exists w a" "\<not> path_exists w b"
    and "isdir w (dirname b)"
  shows "shutil_move w a b = Inr (rename w a b)"
  using assms by (simp add: shutil_move_def not_exists_not_isdir)

lemma revert_failed_frame:
  "entries (snd (revert_failed clk j e w)) = entries w"
  "revert_log (snd (revert_failed clk j e w)) = revert_log w"
  "move_log (snd (revert_failed clk j e w)) = move_log w"
  "ooc_upload_log (snd (revert_failed clk j e w)) = ooc_upload_log w"
  "loose_file_log (snd (revert_failed clk j e w)) = loose_file_log w"
  by (cases e; simp add: log_revert_history_frame)+

lemma revert_entry_ledgers:
  "revert_log (snd (revert_entry clk j row w)) = revert_log w
   \<and> move_log (snd (revert_entry clk j row w)) = move_log w
   \<and> ooc_upload_log (snd (revert_entry clk j row w)) = ooc_upload_log w
   \<and> loose_file_log (snd (revert_entry clk j row w)) = loose_file_log w"
  by (auto simp: revert_entry_def Let_def log_revert_history_frame revert_failed_frame
        shutil_move_frame split: sum.splits)

lemma revert_job_ledgers:
  "revert_log (snd (revert_job clk j w)) = revert_log w
   \<and> move_log (snd (revert_job clk j w)) = move_log w
   \<and> ooc_upload_log (snd (revert_job clk j w)) = ooc_upload_log w
   \<and> loose_file_log (snd (revert_job clk j w)) = loose_file_log w"
  by (auto simp: revert_job_def Let_def revert_failed_frame revert_entry_ledgers
        split: option.splits)

lemma log_revert_history_appends:
  "appended_at_most_one (revert_history_log w) (revert_history_log (log_revert_history clk j a b st w))"
  by (auto simp: appended_at_most_one_def log_revert_history_def append_row_def Let_def split: option.splits)

lemma revert_failed_appends:
  "appended_at_most_one (revert_history_log w) (revert_history_log (snd (revert_failed clk j e w)))"
  by (cases e) (simp_all add: log_revert_history_appends)

lemma revert_entry_appends:
  "appended_at_most_one (revert_history_log w) (revert_history_log (snd (revert_entry clk j row w)))"
proof -
  have m: "\<And>w' a b. shutil_move w a b = Inr w' \<Longrightarrow>
      appended_at_most_one (revert_history_log w)
        (revert_history_log (log_revert_history clk j (row ! 2) b ''SUCCESS'' w'))"
  proof -
    fix w' a b assume "shutil_move w a b = Inr w'"
    then have "revert_history_log w' = revert_history_log w" by (rule shutil_move_frame)
    then show "appended_at_most_one (revert_history_log w)
        (revert_history_log (log_revert_history clk j (row ! 2) b ''SUCCESS'' w'))"
      using log_revert_history_appends [of w' clk j "row ! 2" b "''SUCCESS''"] by simp
  qed
  show ?thesis
    by (auto simp: revert_entry_def Let_def log_revert_history_appends revert_failed_appends m
        split: sum.splits)
qed

lemma revert_job_appends:
  "appended_at_most_one (revert_history_log w) (revert_history_log (snd (revert_job clk j w)))"
  by (auto simp: revert_job_def Let_def revert_failed_appends revert_entry_appends
        split: option.splits) (simp_all add: appended_at_most_one_def)

text \<open>
  C4. A revert never changes the transaction ledger \<open>revert_log\<close>: whatever the ledger
  holds and however the revert ends, the ledger after the call is the ledger before
  it. The other watchers' ledgers are untouched as well, and the revert-history ledger
  is left as it was or gains exactly one row at its end.
\<close>

theorem revert_job_keeps_ledger:
  "revert_log (snd (revert_job clk job_no w)) = revert_log w
   \<and> move_log (snd (revert_job clk job_no w)) = move_log w
   \<and> ooc_upload_log (snd (revert_job clk job_no w)) = ooc_upload_log w
   \<and> loose_file_log (snd (revert_job clk job_no w)) = loose_file_log w
   \<and> appended_at_most_one (revert_history_log w)
        (revert_history_log (snd (revert_job clk job_no w)))"
  using revert_job_ledgers [of clk job_no w] revert_job_appends [of w clk job_no] by simp


text \<open>
  C2. When the ledger holds, after its header, a row for the requested job (at least
  three cells, the first equal to the job number) with no such row after it, the revert
  works on that row, whatever rows for the job come before it and whatever any
  timestamp cell says: it behaves as \<open>revert_entry\<close> on that row. In particular, when the
  row's moved path exists, the parent of its original path is a directory, the original
  path is free and the operating system denies neither, the folder at the moved path is renamed
  to the original path, and the history row names the moved path as source and the
  original path as destination.
\<close>

theorem revert_job_selects_last_appended:
  assumes "revert_log w = Some (header # before @ [row] @ after)"
    and "denied w REVERT_LOG = None"
    and "3 \<le> length row" and "row ! 0 = job_no"
    and "\<forall>r. r \<in> set after \<longrightarrow> \<not> (3 \<le> length r \<and> r ! 0 = job_no)"
  shows "revert_job clk job_no w = revert_entry clk job_no row w
    \<and> (path_exists w (row ! 2) \<and> isdir w (dirname (row ! 1)) \<and> \<not> path_exists w (row ! 1)
         \<and> denied w (row ! 2) = None \<and> denied w (row ! 1) = None \<longrightarrow>
       fst (revert_job clk job_no w) = ''Reverted successfully to '' @ row ! 1
       \<and> entries (snd (revert_job clk job_no w)) = entries (rename w (row ! 2) (row ! 1))
       \<and> revert_history_log (snd (revert_job clk job_no w)) =
           (if denied w REVERT_HISTORY_LOG = None
            then Some (history_rows w @ [[stamp clk, job_no, row ! 2, row ! 1, ''SUCCESS'']])
            else revert_history_log w))"
proof -
  note sel = matches_of_last [OF assms(3,4,5), of before]
  have eq: "revert_job clk job_no w = revert_entry clk job_no row w"
    using assms(1,2) sel by (simp add: revert_job_def Let_def)
  have succ: "fst (revert_entry clk job_no row w) = ''Reverted successfully to '' @ row ! 1
       \<and> entries (snd (revert_entry clk job_no row w)) = entries (rename w (row ! 2) (row ! 1))
       \<and> revert_history_log (snd (revert_entry clk job_no row w)) =
           (if denied w REVERT_HISTORY_LOG = None
            then Some (history_rows w @ [[stamp clk, job_no, row ! 2, row ! 1, ''SUCCESS'']])
            else revert_history_log w)"
    if c: "path_exists w (row ! 2) \<and> isdir w (dirname (row ! 1)) \<and> \<not> path_exists w (row ! 1)
         \<and> denied w (row ! 2) = None \<and> denied w (row ! 1) = None"
  proof -
    from c have mv: "shutil_move w (row ! 2) (row ! 1) = Inr (rename w (row ! 2) (row ! 1))"
      by (intro shutil_move_free) simp_all
    have hr: "\<And>a b. history_rows (rename w a b) = history_rows w"
      by (simp add: history_rows_def rename_frame)
    from c have pe: "path_exists w (dirname (row ! 1))" by (simp add: isdir_exists)
    from c mv pe show ?thesis
      by (simp add: revert_entry_def Let_def log_revert_history_frame
            log_revert_history_effect rename_frame hr)
  qed
  from eq succ show ?thesis by simp
qed

theorem revert_job_selects_last_appended_witness:
  "fst (revert_job clock0 ''IR00451'' promoted_world)
     = ''Reverted successfully to '' @ win [''Y:'', ''W'', ''IR00451'']
   \<and> entries (snd (revert_job clock0 ''IR00451'' promoted_world))
     = [(win [''Y:'', ''W''], Dir),
        (win [''Y:'', ''W'', ''IR00451''], Dir),
        (win [''Y:'', ''W'', ''IR00451'', ''a.pdf''], File),
        (win [''Z:'', ''OLD'', ''IR00451''], Dir)]
   \<and> revert_history_log (snd (revert_job clock0 ''IR00451'' promoted_world))
     = Some [history_header,
             [''2026-01-15 10:30:00'', ''IR00451'', win [''Z:'', ''B'', ''IR00451''],
              win [''Y:'', ''W'', ''IR00451''], ''SUCCESS'']]"
proof -
  let ?row = "[''IR00451'', win [''Y:'', ''W'', ''IR00451''], win [''Z:'', ''B'', ''IR00451''],
            ''2026-01-01 09:00:00'']"
  let ?before = "[[''IR00451'', win [''Y:'', ''W'', ''IR00451''], win [''Z:'', ''OLD'', ''IR00451''],
            ''2026-02-01 09:00:00'']]"
  let ?after = "[[''IR00999'', win [''Y:'', ''W'', ''IR00999''], win [''Z:'', ''B'', ''IR00999''],
            ''2026-03-01 09:00:00'']]"
  have h1: "revert_log promoted_world = Some (revert_header # ?before @ [?row] @ ?after)"
    by (simp add: promoted_world_def bare_world_def)
  have h2: "denied promoted_world REVERT_LOG = None"
    by (simp add: promoted_world_def bare_world_def)
  have h3: "3 \<le> length ?row" by simp
  have h4: "?row ! 0 = ''IR00451''" by simp
  have h5: "\<forall>r. r \<in> set ?after \<longrightarrow> \<not> (3 \<le> length r \<and> r ! 0 = ''IR00451'')" by simp
  have c: "path_exists promoted_world (?row ! 2) \<and> isdir promoted_world (dirname (?row ! 1))
      \<and> \<not> path_exists promoted_world (?row ! 1)
      \<and> denied promoted_world (?row ! 2) = None \<and> denied promoted_world (?row ! 1) = None"
    by code_simp
  have r: "entries (rename promoted_world (?row ! 2) (?row ! 1))
     = [(win [''Y:'', ''W''], Dir),
        (win [''Y:'', ''W'', ''IR00451''], Dir),
        (win [''Y:'', ''W'', ''IR00451'', ''a.pdf''], File),
        (win [''Z:'', ''OLD'', ''IR00451''], Dir)]"
    by code_simp
  have d: "denied promoted_world REVERT_HISTORY_LOG = None"
    by (simp add: promoted_world_def bare_world_def)
  have hr: "history_rows promoted_world = [history_header]" by code_simp
  have st: "stamp clock0 = ''2026-01-15 10:30:00''" by (simp add: clock0_def)
  note t = revert_job_selects_last_appended [OF h1 h2 h3 h4 h5, of clock0]
  from t [THEN conjunct2] c
  have "fst (revert_job clock0 ''IR00451'' promoted_world)
          = ''Reverted successfully to '' @ ?row ! 1
       \<and> entries (snd (revert_job clock0 ''IR00451'' promoted_world))
          = entries (rename promoted_world (?row ! 2) (?row ! 1))
       \<and> revert_history_log (snd (revert_job clock0 ''IR00451'' promoted_world)) =
           (if denied promoted_world REVERT_HISTORY_LOG = None
            then Some (history_rows promoted_world @
                   [[stamp clock0, ''IR00451'', ?row ! 2, ?row ! 1, ''SUCCESS'']])
            else revert_history_log promoted_world)"
    by (rule mp)
  with r d hr st show ?thesis by simp
qed

text \<open>
  C3 (as amended). A revert for a job number that no ledger row carries returns
  ``No revert entry found'' and leaves the whole world as it was: nothing is moved and
  no row is appended to the revert-history ledger. A revert whose selected row names a
  moved path at which nothing exists moves nothing and appends one
  \<open>FAILED: Folder not at moved location\<close> row to the revert-history ledger, provided that
  ledger can be opened; when it cannot, the ledger stays as it was.
\<close>

theorem revert_job_without_entry:
  "(revert_log w = Some (header # rows) \<and> denied w REVERT_LOG = None
      \<and> (\<forall>r. r \<in> set rows \<longrightarrow> \<not> (3 \<le> length r \<and> r ! 0 = job_no))
     \<longrightarrow> revert_job clk job_no w = (''No revert entry found for '' @ job_no @ ''.'', w))
   \<and> (revert_log w = Some (header # before @ [row] @ after) \<and> denied w REVERT_LOG = None
      \<and> 3 \<le> length row \<and> row ! 0 = job_no
      \<and> (\<forall>r. r \<in> set after \<longrightarrow> \<not> (3 \<le> length r \<and> r ! 0 = job_no))
      \<and> \<not> path_exists w (row ! 2)
     \<longrightarrow> fst (revert_job clk job_no w) = ''Folder no longer exists at: '' @ row ! 2
       \<and> entries (snd (revert_job clk job_no w)) = entries w
       \<and> revert_history_log (snd (revert_job clk job_no w)) =
           (if denied w REVERT_HISTORY_LOG = None
            then Some (history_rows w @
                   [[stamp clk, job_no, row ! 2, row ! 1, ''FAILED: Folder not at moved location'']])
            else revert_history_log w))"
proof (rule conjI; rule impI)
  assume a: "revert_log w = Some (header # rows) \<and> denied w REVERT_LOG = None
      \<and> (\<forall>r. r \<in> set rows \<longrightarrow> \<not> (3 \<le> length r \<and> r ! 0 = job_no))"
  then have "matches_of rows job_no = []" by (intro matches_of_none) simp
  with a show "revert_job clk job_no w = (''No revert entry found for '' @ job_no @ ''.'', w)"
    by (simp add: revert_job_def Let_def)
next
  assume a: "revert_log w = Some (header # before @ [row] @ after) \<and> denied w REVERT_LOG = None
      \<and> 3 \<le> length row \<and> row ! 0 = job_no
      \<and> (\<forall>r. r \<in> set after \<longrightarrow> \<not> (3 \<le> length r \<and> r ! 0 = job_no))
      \<and> \<not> path_exists w (row ! 2)"
  then have sel: "matches_of (before @ [row] @ after) job_no \<noteq> []"
      "last (matches_of (before @ [row] @ after) job_no) = row"
    using matches_of_last [of row job_no after before] by blast+
  have eq: "revert_job clk job_no w = revert_entry clk job_no row w"
    using a sel by (simp add: revert_job_def Let_def)
  from a show "fst (revert_job clk job_no w) = ''Folder no longer exists at: '' @ row ! 2
       \<and> entries (snd (revert_job clk job_no w)) = entries w
       \<and> revert_history_log (snd (revert_job clk job_no w)) =
           (if denied w REVERT_HISTORY_LOG = None
            then Some (history_rows w @
                   [[stamp clk, job_no, row ! 2, row ! 1, ''FAILED: Folder not at moved location'']])
            else revert_history_log w)"
    unfolding eq
    by (simp add: revert_entry_def Let_def log_revert_history_frame log_revert_history_effect)
qed

theorem revert_job_without_entry_witness:
  "revert_job clock0 ''IR00451'' never_promoted_world
     = (''No revert entry found for IR00451.'', never_promoted_world)
   \<and> fst (revert_job clock0 ''IR00451'' reverted_world)
     = ''Folder no longer exists at: '' @ win [''Z:'', ''B'', ''IR00451'']
   \<and> entries (snd (revert_job clock0 ''IR00451'' reverted_world)) = entries reverted_world
   \<and> revert_history_log (snd (revert_job clock0 ''IR00451'' reverted_world))
     = Some [history_header,
             [''2026-01-15 10:30:00'', ''IR00451'', win [''Z:'', ''B'', ''IR00451''],
              win [''Y:'', ''W'', ''IR00451''], ''FAILED: Folder not at moved location'']]"
proof -
  let ?row = "[''IR00451'', win [''Y:'', ''W'', ''IR00451''], win [''Z:'', ''B'', ''IR00451''],
            ''2026-01-01 09:00:00'']"
  have a: "revert_log never_promoted_world = Some (revert_header # [])
      \<and> denied never_promoted_world REVERT_LOG = None
      \<and> (\<forall>r. r \<in> set [] \<longrightarrow> \<not> (3 \<le> length r \<and> r ! 0 = ''IR00451''))"
    by (simp add: never_promoted_world_def bare_world_def)
  from revert_job_without_entry [THEN conjunct1, of never_promoted_world revert_header "[]"
      "''IR00451''" clock0] a
  have one: "revert_job clock0 ''IR00451'' never_promoted_world
     = (''No revert entry found for '' @ ''IR00451'' @ ''.'', never_promoted_world)"
    by (rule mp)
  have b: "revert_log reverted_world = Some (revert_header # [] @ [?row] @ [])
      \<and> denied reverted_world REVERT_LOG = None
      \<and> 3 \<le> length ?row \<and> ?row ! 0 = ''IR00451''
      \<and> (\<forall>r. r \<in> set [] \<longrightarrow> \<not> (3 \<le> length r \<and> r ! 0 = ''IR00451''))
      \<and> \<not> path_exists reverted_world (?row ! 2)"
    by (simp add: reverted_world_def bare_world_def path_exists_def bslash_def)
  from revert_job_without_entry [THEN conjunct2, of reverted_world revert_header "[]" ?row "[]"
      "''IR00451''" clock0] b
  have two: "fst (revert_job clock0 ''IR00451'' reverted_world)
         = ''Folder no longer exists at: '' @ ?row ! 2
       \<and> entries (snd (revert_job clock0 ''IR00451'' reverted_world)) = entries reverted_world
       \<and> revert_history_log (snd (revert_job clock0 ''IR00451'' reverted_world)) =
           (if denied reverted_world REVERT_HISTORY_LOG = None
            then Some (history_rows reverted_world @
                   [[stamp clock0, ''IR00451'', ?row ! 2, ?row ! 1,
                     ''FAILED: Folder not at moved location'']])
            else revert_history_log reverted_world)"
    by (rule mp)
  have d: "denied reverted_world REVERT_HISTORY_LOG = None"
    by (simp add: reverted_world_def bare_world_def)
  have hr: "history_rows reverted_world = [history_header]" by code_simp
  have st: "stamp clock0 = ''2026-01-15 10:30:00''" by (simp add: clock0_def)
  from one two d hr st show ?thesis by simp
qed

text \<open>
  The claim as the specification states it fails for a job that was never promoted: the
  ledger holds its header only, the revert reports that there is no entry, and the
  revert-history ledger is exactly what it was, with no \<open>FAILED\<close> row.
\<close>

theorem revert_job_no_entry_counterexample:
  "matches_of (drop 1 [revert_header]) ''IR00451'' = []
   \<and> fst (revert_job clock0 ''IR00451'' never_promoted_world) = ''No revert entry found for IR00451.''
   \<and> revert_history_log (snd (revert_job clock0 ''IR00451'' never_promoted_world))
       = revert_history_log never_promoted_world
   \<and> revert_history_log never_promoted_world = Some [history_header]"
  by code_simp

section \<open>Watcher 1: which inbox files are processed, and which outcomes are logged\<close>



text \<open>
  C10. The ingest watcher processes only files whose lower-cased name ends in \<open>.pdf\<close>.
  For any other inbox entry the loop body returns the world as it was, whether or not
  the name carries a job key: the entry is not moved, no row is logged and no counter
  changes. A whole pass over a listing therefore equals the pass over its \<open>.pdf\<close> names.
\<close>

theorem ooc_upload_only_pdf:
  "(\<not> is_pdf_name filename \<longrightarrow> ooc_upload_file clk filename w = Inr w)
   \<and> ooc_upload_files clk names w = ooc_upload_files clk (filter is_pdf_name names) w"
proof
  show one: "\<not> is_pdf_name filename \<longrightarrow> ooc_upload_file clk filename w = Inr w"
    by (simp add: ooc_upload_file_def is_pdf_name_def Let_def)
  have step: "\<And>n w. \<not> is_pdf_name n \<Longrightarrow> ooc_upload_file clk n w = Inr w"
    by (simp add: ooc_upload_file_def is_pdf_name_def Let_def)
  show "ooc_upload_files clk names w = ooc_upload_files clk (filter is_pdf_name names) w"
  proof (induction names arbitrary: w)
    case Nil
    show ?case by simp
  next
    case (Cons n ns)
    show ?case
    proof (cases "is_pdf_name n")
      case True
      then show ?thesis by (simp add: Cons.IH split: sum.splits)
    next
      case False
      then show ?thesis using Cons.IH [of w] by (simp add: step)
    qed
  qed
qed

theorem ooc_upload_only_pdf_witness:
  "is_pdf_name ''Invoice_IR_00451.PDF''
   \<and> \<not> is_pdf_name ''Invoice_IR_00451.docx''
   \<and> ir_search ''Invoice_IR_00451.docx'' = Some ''00451''
   \<and> ooc_upload_file clock0 ''Invoice_IR_00451.docx'' inbox_world = Inr inbox_world"
proof -
  have p: "is_pdf_name ''Invoice_IR_00451.PDF''" by code_simp
  have a: "\<not> is_pdf_name ''Invoice_IR_00451.docx''" by code_simp
  have b: "ir_search ''Invoice_IR_00451.docx'' = Some ''00451''" by code_simp
  from ooc_upload_only_pdf [THEN conjunct1, of "''Invoice_IR_00451.docx''" clock0 inbox_world] a
  have "ooc_upload_file clock0 ''Invoice_IR_00451.docx'' inbox_world = Inr inbox_world"
    by (rule mp)
  with p a b show ?thesis by simp
qed








section \<open>Watcher 3: stray files that stay where they are\<close>

lemma first_folder_containing_None:
  "first_folder_containing w parent job_number items = None \<longleftrightarrow>
     (\<forall>i. i \<in> set items \<longrightarrow>
        \<not> (isdir w (join parent i) \<and> sublist (upper job_number) (upper i)))"
  by (induction items) (auto simp: Let_def contains_iff_sublist)




section \<open>Letter case in job-key matching\<close>

lemma upper_char_table:
  "map_of (zip ascii_lowercase ascii_uppercase) c = Some u \<Longrightarrow>
     c \<in> set ascii_lowercase \<and> u \<in> set ascii_uppercase"
  by (meson in_set_zipE map_of_SomeD)

lemma upper_char_cases:
  "upper_char c = c \<or> (c \<in> set ascii_lowercase \<and> upper_char c \<in> set ascii_uppercase)"
  unfolding upper_char_def using upper_char_table [of c]
  by (cases "map_of (zip ascii_lowercase ascii_uppercase) c") auto

lemma upper_char_other: "c \<notin> set ascii_lowercase \<Longrightarrow> upper_char c = c"
  using upper_char_cases [of c] by blast

lemma letters_disjoint: "list_all (\<lambda>c. c \<notin> set ascii_lowercase) ascii_uppercase"
  by code_simp

lemma letters_not_digits:
  "list_all (\<lambda>c. \<not> is_digit c \<and> \<not> is_key_sep c) (ascii_lowercase @ ascii_uppercase)"
  by code_simp

lemma upper_char_idem: "upper_char (upper_char c) = upper_char c"
  using upper_char_cases [of c] letters_disjoint upper_char_other
  by (auto simp: list_all_iff)

lemma is_digit_upper_char: "is_digit (upper_char c) = is_digit c"
  using upper_char_cases [of c] letters_not_digits
  by (auto simp: list_all_iff)

lemma digit_upper_char: "is_digit c \<Longrightarrow> upper_char c = c"
  using upper_char_cases [of c] letters_not_digits
  by (auto simp: list_all_iff)

lemma is_key_sep_upper_char: "is_key_sep (upper_char c) = is_key_sep c"
  using upper_char_cases [of c] letters_not_digits
  by (auto simp: list_all_iff)

lemma upper_idem: "upper (upper s) = upper s"
  by (simp add: upper_def upper_char_idem)

lemma digits_upper: "digits lo hi (upper s) = digits lo hi s"
proof -
  have "takeWhile is_digit (take hi (map upper_char s)) = takeWhile is_digit (take hi s)"
  proof (induction s arbitrary: hi)
    case Nil
    show ?case by simp
  next
    case (Cons c cs)
    show ?case
    proof (cases hi)
      case 0
      then show ?thesis by simp
    next
      case (Suc h)
      then show ?thesis
        using Cons.IH [of h] by (simp add: is_digit_upper_char digit_upper_char)
    qed
  qed
  then show ?thesis by (simp add: digits_def upper_def)
qed

lemma sep_digits_upper: "sep_digits lo hi (upper s) = sep_digits lo hi s"
proof (cases s)
  case Nil
  then show ?thesis using digits_upper [of lo hi "[]"] by (simp add: sep_digits_def upper_def)
next
  case (Cons c t)
  have a: "digits lo hi (map upper_char t) = digits lo hi t"
    using digits_upper [of lo hi t] by (simp add: upper_def)
  have b: "digits lo hi (upper_char c # map upper_char t) = digits lo hi (c # t)"
    using digits_upper [of lo hi "c # t"] by (simp add: upper_def)
  show ?thesis unfolding Cons
    by (simp add: sep_digits_def upper_def is_key_sep_upper_char a b split: option.splits)
qed

lemma ir_match_upper: "ir_match (upper s) = ir_match s"
proof (cases s)
  case Nil
  then show ?thesis by (simp add: ir_match_def upper_def)
next
  case (Cons c1 t1)
  show ?thesis
  proof (cases t1)
    case Nil
    with Cons show ?thesis by (simp add: ir_match_def upper_def)
  next
    case (Cons c2 t)
    have "sep_digits 5 5 (map upper_char t) = sep_digits 5 5 t"
      using sep_digits_upper [of 5 5 t] by (simp add: upper_def)
    with Cons \<open>s = c1 # t1\<close> show ?thesis
      by (simp add: ir_match_def upper_def upper_char_idem)
  qed
qed

lemma ir_search_upper: "ir_search (upper s) = ir_search s"
proof (induction s)
  case Nil
  show ?case by (simp add: upper_def)
next
  case (Cons c cs)
  have m: "ir_match (upper_char c # map upper_char cs) = ir_match (c # cs)"
    using ir_match_upper [of "c # cs"] by (simp add: upper_def)
  from Cons show ?case by (simp add: upper_def m split: option.splits)
qed

lemma job_number_match_upper:
  "job_number_match (upper s) = map_option (\<lambda>(g1, g2). (upper g1, g2)) (job_number_match s)"
proof (cases s)
  case Nil
  then show ?thesis by (simp add: job_number_match_def upper_def)
next
  case (Cons c1 t1)
  show ?thesis
  proof (cases t1)
    case Nil
    with Cons show ?thesis by (simp add: job_number_match_def upper_def)
  next
    case (Cons c2 t)
    have "sep_digits 4 5 (map upper_char t) = sep_digits 4 5 t"
      using sep_digits_upper [of 4 5 t] by (simp add: upper_def)
    with Cons \<open>s = c1 # t1\<close> show ?thesis
      by (simp add: job_number_match_def upper_def upper_char_idem option.map_comp comp_def)
  qed
qed

lemma job_number_search_upper:
  "job_number_search (upper s) = map_option (\<lambda>(g1, g2). (upper g1, g2)) (job_number_search s)"
proof (induction s)
  case Nil
  show ?case by (simp add: upper_def)
next
  case (Cons c cs)
  have m: "job_number_match (upper_char c # map upper_char cs)
      = map_option (\<lambda>(g1, g2). (upper g1, g2)) (job_number_match (c # cs))"
    using job_number_match_upper [of "c # cs"] by (simp add: upper_def)
  from Cons show ?case by (simp add: upper_def m split: option.splits)
qed

lemma extract_job_number_upper: "extract_job_number (upper s) = extract_job_number s"
  by (simp add: extract_job_number_def job_number_search_upper upper_idem Let_def
        split: option.splits prod.splits)

text \<open>
  C6 (as amended). Matching a job key against folders is case-insensitive in the ingest
  watcher and in reconciliation: keys that agree once upper-cased find the same folder,
  and a folder matches exactly when it is a directory whose upper-cased name contains the
  upper-cased key; file names that agree once upper-cased give the same key under both
  job-number patterns. The ledger lookup of \<open>revert_job\<close> is an exact comparison: a row is
  selected exactly when it has at least three cells and its first cell equals the
  requested job number.
\<close>

theorem job_key_case_handling:
  "(upper k1 = upper k2 \<longrightarrow>
      find_matching_job_folder w company_path k1 = find_matching_job_folder w company_path k2
      \<and> first_folder_containing w parent k1 items = first_folder_containing w parent k2 items)
   \<and> (first_folder_containing w parent k1 items \<noteq> None \<longleftrightarrow>
        (\<exists>i. i \<in> set items \<and> isdir w (join parent i) \<and> sublist (upper k1) (upper i)))
   \<and> (upper f1 = upper f2 \<longrightarrow>
        ir_search f1 = ir_search f2 \<and> extract_job_number f1 = extract_job_number f2)
   \<and> (r \<in> set (matches_of rows job_no) \<longleftrightarrow>
        r \<in> set rows \<and> 3 \<le> length r \<and> r ! 0 = job_no)"
proof (intro conjI)
  have ff: "first_folder_containing w p k1 items = first_folder_containing w p k2 items"
    if "upper k1 = upper k2" for p
    using that by (induction items) (simp_all add: Let_def)
  show "upper k1 = upper k2 \<longrightarrow>
      find_matching_job_folder w company_path k1 = find_matching_job_folder w company_path k2
      \<and> first_folder_containing w parent k1 items = first_folder_containing w parent k2 items"
  proof
    assume u: "upper k1 = upper k2"
    have "\<And>its. first_folder_containing w company_path k1 its
        = first_folder_containing w company_path k2 its"
    proof -
      fix its show "first_folder_containing w company_path k1 its
        = first_folder_containing w company_path k2 its"
        using u by (induction its) (simp_all add: Let_def)
    qed
    then have "find_matching_job_folder w company_path k1
        = find_matching_job_folder w company_path k2"
      by (simp add: find_matching_job_folder_def split: sum.splits)
    with ff [OF u] show "find_matching_job_folder w company_path k1
        = find_matching_job_folder w company_path k2
      \<and> first_folder_containing w parent k1 items = first_folder_containing w parent k2 items"
      by simp
  qed
  show "first_folder_containing w parent k1 items \<noteq> None \<longleftrightarrow>
        (\<exists>i. i \<in> set items \<and> isdir w (join parent i) \<and> sublist (upper k1) (upper i))"
    by (simp add: first_folder_containing_None)
  show "upper f1 = upper f2 \<longrightarrow>
        ir_search f1 = ir_search f2 \<and> extract_job_number f1 = extract_job_number f2"
    by (metis ir_search_upper extract_job_number_upper)
  show "r \<in> set (matches_of rows job_no) \<longleftrightarrow>
        r \<in> set rows \<and> 3 \<le> length r \<and> r ! 0 = job_no"
    by (auto simp: matches_of_def)
qed

theorem job_key_case_handling_witness:
  "upper ''ir00999'' = upper ''IR00999''
   \<and> find_matching_job_folder company_world (join BILLING_BASE ''BMW INDIA PVT LTD'') ''ir00999''
     = find_matching_job_folder company_world (join BILLING_BASE ''BMW INDIA PVT LTD'') ''IR00999''
   \<and> find_matching_job_folder company_world (join BILLING_BASE ''BMW INDIA PVT LTD'') ''IR00999''
     = Some (join (join BILLING_BASE ''BMW INDIA PVT LTD'') ''ir00999 - BMW'')
   \<and> upper ''invoice_ir-00999.pdf'' = upper ''Invoice_IR-00999.PDF''
   \<and> ir_search ''invoice_ir-00999.pdf'' = ir_search ''Invoice_IR-00999.PDF''
   \<and> ir_search ''invoice_ir-00999.pdf'' = Some ''00999''
   \<and> extract_job_number ''invoice_ir-00999.pdf'' = extract_job_number ''Invoice_IR-00999.PDF''
   \<and> extract_job_number ''invoice_ir-00999.pdf'' = Some ''IR00999''"
proof -
  let ?c = "join BILLING_BASE ''BMW INDIA PVT LTD''"
  have u1: "upper ''ir00999'' = upper ''IR00999''" by code_simp
  have u2: "upper ''invoice_ir-00999.pdf'' = upper ''Invoice_IR-00999.PDF''" by code_simp
  note t = job_key_case_handling [where ?k1.0 = "''ir00999''" and ?k2.0 = "''IR00999''"
      and w = company_world and company_path = ?c and parent = ?c and items = "[]"
      and ?f1.0 = "''invoice_ir-00999.pdf''" and ?f2.0 = "''Invoice_IR-00999.PDF''"
      and r = "[]" and rows = "[]" and job_no = "[]"]
  from t [THEN conjunct1] u1
  have a: "find_matching_job_folder company_world ?c ''ir00999''
       = find_matching_job_folder company_world ?c ''IR00999''
     \<and> first_folder_containing company_world ?c ''ir00999'' []
       = first_folder_containing company_world ?c ''IR00999'' []"
    by (rule mp)
  from t [THEN conjunct2, THEN conjunct2, THEN conjunct1] u2
  have b: "ir_search ''invoice_ir-00999.pdf'' = ir_search ''Invoice_IR-00999.PDF''
     \<and> extract_job_number ''invoice_ir-00999.pdf'' = extract_job_number ''Invoice_IR-00999.PDF''"
    by (rule mp)
  have c: "find_matching_job_folder company_world ?c ''IR00999''
     = Some (join ?c ''ir00999 - BMW'')" by code_simp
  have d: "ir_search ''invoice_ir-00999.pdf'' = Some ''00999''" by code_simp
  have e: "extract_job_number ''invoice_ir-00999.pdf'' = Some ''IR00999''" by code_simp
  from u1 u2 a b c d e show ?thesis by (intro conjI) (simp_all only:)
qed

text \<open>
  The claim as the specification states it fails for the revert lookup: the ledger row
  is written for \<open>IR00451\<close>; a revert of \<open>IR00451\<close> succeeds, a revert of
  \<open>ir00451\<close> on the same world finds no entry and moves nothing.
\<close>

theorem revert_job_case_sensitive_counterexample:
  "upper ''ir00451'' = upper ''IR00451''
   \<and> fst (revert_job clock0 ''IR00451'' promoted_world)
       = ''Reverted successfully to '' @ win [''Y:'', ''W'', ''IR00451'']
   \<and> fst (revert_job clock0 ''ir00451'' promoted_world) = ''No revert entry found for ir00451.''
   \<and> entries (snd (revert_job clock0 ''ir00451'' promoted_world)) = entries promoted_world"
  by code_simp

section \<open>Watcher 2: a promotion and its ledger row\<close>















end
